theory Spec2Isabelle
  imports Main "HOL-Library.Multiset"
begin

section \<open>Auth blocking triggers: data model\<close>

text \<open>
  The module \<^verbatim>\<open>src/deploy/functions/services/authBlocking.ts\<close> validates the auth
  blocking endpoints of a deployment plan, merges their token-forwarding flags, and
  registers or unregisters a blocking function in the remote identity platform
  configuration. The embedding below follows the TypeScript line by line; an optional
  property \<^verbatim>\<open>x?: T\<close> is a \<open>T option\<close>, a thrown \<^verbatim>\<open>FirebaseError\<close> is the left
  component of a sum, and every mutated object (the plan, the endpoint, the remote
  service) is passed in and returned.
\<close>

text \<open>
  Three token flags occur with three value types: optional booleans on a blocking
  trigger, booleans on the plan's merged options, and strings on the wire.
\<close>

record 'a tokens =
  accessToken :: 'a
  idToken :: 'a
  refreshToken :: 'a

text \<open>
  \<^verbatim>\<open>backend.BlockingTrigger\<close>: an event type and the three optional flags.
\<close>

record BlockingTrigger = "bool option tokens" +
  eventType :: string

text \<open>
  Modelled from the spec: \<^verbatim>\<open>backend.ts\<close> is not among the sources. An endpoint is a
  deployable function unit with an identity, a project and an optional callable URI; the
  type \<^verbatim>\<open>Endpoint & BlockingTriggered\<close> is an endpoint that carries a
  \<^verbatim>\<open>blockingTrigger\<close>; any other endpoint carries some other kind of trigger.
  The field \<^verbatim>\<open>id\<close> is named \<open>id_ep\<close> here.
\<close>

record EndpointBase =
  id_ep :: string
  project :: string
  uri :: "string option"

record BlockingEndpoint = EndpointBase +
  blockingTrigger :: BlockingTrigger

datatype Endpoint = BlockingTriggered BlockingEndpoint | OtherTriggered EndpointBase

text \<open>
  Modelled from the spec: the plan (\<^verbatim>\<open>backend.Backend\<close>) is a collection of endpoints
  plus shared resource options, whose identity-platform part holds the three merged
  boolean flags and may be absent.
\<close>

record ResourceOptions =
  identityPlatform :: "bool tokens option"

record Backend =
  endpoints :: "Endpoint list"
  resourceOptions :: ResourceOptions

text \<open>
  Modelled from the spec: \<^verbatim>\<open>backend.allEndpoints\<close> lists the endpoints of a plan, and
  the type guard \<^verbatim>\<open>backend.isBlockingTriggered\<close> holds of the endpoints that carry a
  blocking trigger. \<open>asBlockingTriggered\<close> is the guard together with the cast to
  \<^verbatim>\<open>Endpoint & BlockingTriggered\<close> that follows the filter in the source.
\<close>

definition allEndpoints :: "Backend \<Rightarrow> Endpoint list" where
  "allEndpoints wantBackend = endpoints wantBackend"

fun asBlockingTriggered :: "Endpoint \<Rightarrow> BlockingEndpoint option" where
  "asBlockingTriggered (BlockingTriggered ep) = Some ep"
| "asBlockingTriggered (OtherTriggered _) = None"

definition isBlockingTriggered :: "Endpoint \<Rightarrow> bool" where
  "isBlockingTriggered ep = (asBlockingTriggered ep \<noteq> None)"

datatype error = FirebaseError string

text \<open>
  \<^verbatim>\<open>x || false\<close> for an optional boolean \<open>x\<close>: undefined counts as false.
\<close>

definition orFalse :: "bool option \<Rightarrow> bool" where
  "orFalse x = (case x of None \<Rightarrow> False | Some b \<Rightarrow> b)"

section \<open>Validation and merging of the options\<close>

text \<open>
  Lines 16 to 19: the blocking endpoints of the plan.
\<close>

definition blockingEndpoints :: "Backend \<Rightarrow> BlockingEndpoint list" where
  "blockingEndpoints wantBackend = List.map_filter asBlockingTriggered (allEndpoints wantBackend)"

text \<open>
  The message of the error thrown at lines 26 to 28.
\<close>

definition duplicateTriggerError :: "string \<Rightarrow> error" where
  "duplicateTriggerError t =
     FirebaseError (''Can only create at most one Auth Blocking Trigger for '' @ t @ '' events'')"

text \<open>
  \<^verbatim>\<open>ensureAuthBlockingTriggerIsValid\<close> (lines 12 to 45). The result pairs the outcome
  (the thrown error, or a normal return) with the plan as the call leaves it.
\<close>

definition ensureAuthBlockingTriggerIsValid ::
    "BlockingEndpoint \<Rightarrow> Backend \<Rightarrow> (error + unit) \<times> Backend" where
  "ensureAuthBlockingTriggerIsValid endpoint wantBackend =
     (if List.find
           (\<lambda>ep. eventType (blockingTrigger ep) = eventType (blockingTrigger endpoint)
                 \<and> id_ep ep \<noteq> id_ep endpoint)
           (blockingEndpoints wantBackend) \<noteq> None
      then (Inl (duplicateTriggerError (eventType (blockingTrigger endpoint))), wantBackend)
      else
        let ip = (case identityPlatform (resourceOptions wantBackend) of
                    None \<Rightarrow> \<lparr>accessToken = False, idToken = False, refreshToken = False\<rparr>
                  | Some ip0 \<Rightarrow> ip0);
            ip1 = ip\<lparr>accessToken :=
                      accessToken ip \<or> orFalse (accessToken (blockingTrigger endpoint))\<rparr>;
            ip2 = ip1\<lparr>idToken :=
                      idToken ip1 \<or> orFalse (idToken (blockingTrigger endpoint))\<rparr>;
            ip3 = ip2\<lparr>refreshToken :=
                      refreshToken ip2 \<or> orFalse (refreshToken (blockingTrigger endpoint))\<rparr>
        in (Inr (),
            wantBackend\<lparr>resourceOptions :=
              (resourceOptions wantBackend)\<lparr>identityPlatform := Some ip3\<rparr>\<rparr>))"

text \<open>
  \<^verbatim>\<open>copyIdentityPlatformOptionsToEndpoint\<close> (lines 52 to 61) assigns the three flags of
  the endpoint's trigger; it reads the plan's resource options only, which no endpoint
  contains, so the plan is not returned.
\<close>

definition copyIdentityPlatformOptionsToEndpoint ::
    "BlockingEndpoint \<Rightarrow> Backend \<Rightarrow> BlockingEndpoint" where
  "copyIdentityPlatformOptionsToEndpoint endpoint wantBackend =
     (let ip = identityPlatform (resourceOptions wantBackend);
          t1 = (blockingTrigger endpoint)\<lparr>accessToken :=
                  Some (orFalse (map_option accessToken ip))\<rparr>;
          t2 = t1\<lparr>idToken := Some (orFalse (map_option idToken ip))\<rparr>;
          t3 = t2\<lparr>refreshToken := Some (orFalse (map_option refreshToken ip))\<rparr>
      in endpoint\<lparr>blockingTrigger := t3\<rparr>)"

text \<open>
  Calling \<open>ensureAuthBlockingTriggerIsValid\<close> for a list of endpoints in turn, on the
  same plan; a thrown error ends the sequence.
\<close>

fun ensureAll :: "BlockingEndpoint list \<Rightarrow> Backend \<Rightarrow> (error + unit) \<times> Backend" where
  "ensureAll [] wantBackend = (Inr (), wantBackend)"
| "ensureAll (endpoint # rest) wantBackend =
     (case ensureAuthBlockingTriggerIsValid endpoint wantBackend of
        (Inl e, wantBackend') \<Rightarrow> (Inl e, wantBackend')
      | (Inr _, wantBackend') \<Rightarrow> ensureAll rest wantBackend')"

section \<open>The remote identity platform configuration\<close>

text \<open>
  Modelled from the spec: \<^verbatim>\<open>gcp/identityPlatform.ts\<close> is not among the sources. The
  wire shape of the blocking functions configuration has two optional trigger slots,
  each with an optional function URI, and the optional string-valued forwarding flags.
\<close>

record BlockingFunctionsEventDetails =
  functionUri :: "string option"

record BlockingFunctionsTriggers =
  beforeCreate :: "BlockingFunctionsEventDetails option"
  beforeSignIn :: "BlockingFunctionsEventDetails option"

record BlockingFunctionsConfig =
  triggers :: "BlockingFunctionsTriggers option"
  forwardInboundCredentials :: "string tokens option"

text \<open>
  Modelled from the spec: the remote service keeps one configuration per project;
  \<^verbatim>\<open>getBlockingFunctionsConfig\<close> fetches the current one and
  \<^verbatim>\<open>setBlockingFunctionsConfig\<close> persists a full replacement. Both are taken to
  succeed (a failing call would propagate its own error). The state also logs every
  write, so that a call that does not write is told apart from one that writes back
  what it read.
\<close>

record IdentityPlatform =
  configOf :: "string \<Rightarrow> BlockingFunctionsConfig"
  setCalls :: "(string \<times> BlockingFunctionsConfig) list"

definition getBlockingFunctionsConfig :: "string \<Rightarrow> IdentityPlatform \<Rightarrow> BlockingFunctionsConfig" where
  "getBlockingFunctionsConfig proj remote = configOf remote proj"

definition setBlockingFunctionsConfig ::
    "string \<Rightarrow> BlockingFunctionsConfig \<Rightarrow> IdentityPlatform \<Rightarrow> IdentityPlatform" where
  "setBlockingFunctionsConfig proj config remote =
     remote\<lparr>configOf := (configOf remote)(proj := config),
            setCalls := setCalls remote @ [(proj, config)]\<rparr>"

text \<open>
  The event type constants of \<^verbatim>\<open>functions/events\<close> (\<^verbatim>\<open>events.v1\<close> and
  \<^verbatim>\<open>events.v2\<close>) are not among the sources either; the four strings are a parameter
  of the functions that compare against them.
\<close>

record Events =
  v1_BEFORE_CREATE_EVENT :: string
  v1_BEFORE_SIGN_IN_EVENT :: string
  v2_BEFORE_CREATE_EVENT :: string
  v2_BEFORE_SIGN_IN_EVENT :: string

text \<open>
  The two conditions of the dispatch on the event type (lines 75 to 76 and 85 to 86,
  again at lines 118 to 119 and 132 to 133).
\<close>

definition isBeforeCreate :: "Events \<Rightarrow> BlockingEndpoint \<Rightarrow> bool" where
  "isBeforeCreate events endpoint \<longleftrightarrow>
     eventType (blockingTrigger endpoint) = v1_BEFORE_CREATE_EVENT events
     \<or> eventType (blockingTrigger endpoint) = v2_BEFORE_CREATE_EVENT events"

definition isBeforeSignIn :: "Events \<Rightarrow> BlockingEndpoint \<Rightarrow> bool" where
  "isBeforeSignIn events endpoint \<longleftrightarrow>
     eventType (blockingTrigger endpoint) = v1_BEFORE_SIGN_IN_EVENT events
     \<or> eventType (blockingTrigger endpoint) = v2_BEFORE_SIGN_IN_EVENT events"

text \<open>
  The optional chains \<^verbatim>\<open>blockingConfig.triggers?.beforeCreate\<close> and
  \<^verbatim>\<open>blockingConfig.triggers?.beforeSignIn\<close>, and \<^verbatim>\<open>slot?.functionUri\<close>.
\<close>

definition beforeCreateOf :: "BlockingFunctionsConfig \<Rightarrow> BlockingFunctionsEventDetails option" where
  "beforeCreateOf blockingConfig = Option.bind (triggers blockingConfig) beforeCreate"

definition beforeSignInOf :: "BlockingFunctionsConfig \<Rightarrow> BlockingFunctionsEventDetails option" where
  "beforeSignInOf blockingConfig = Option.bind (triggers blockingConfig) beforeSignIn"

definition functionUriOf :: "BlockingFunctionsEventDetails option \<Rightarrow> string option" where
  "functionUriOf slot = Option.bind slot functionUri"

text \<open>
  JavaScript truthiness of an optional string: undefined and the empty string are falsy.
\<close>

definition truthy :: "string option \<Rightarrow> bool" where
  "truthy s = (case s of None \<Rightarrow> False | Some v \<Rightarrow> v \<noteq> [])"

text \<open>
  \<^verbatim>\<open>Boolean.prototype.toString\<close>.
\<close>

definition toString :: "bool \<Rightarrow> string" where
  "toString b = (if b then ''true'' else ''false'')"

text \<open>
  \<^verbatim>\<open>registerAuthBlockingTriggerToIdentityPlatform\<close> (lines 68 to 107). The non-null
  assertion \<^verbatim>\<open>endpoint.uri!\<close> has no effect at run time: the slot receives the
  endpoint's URI as it is.
\<close>

definition registerAuthBlockingTriggerToIdentityPlatform ::
    "Events \<Rightarrow> BlockingEndpoint \<Rightarrow> bool \<Rightarrow> IdentityPlatform \<Rightarrow> (error + unit) \<times> IdentityPlatform" where
  "registerAuthBlockingTriggerToIdentityPlatform events endpoint update remote =
     (let blockingConfig = getBlockingFunctionsConfig (project endpoint) remote;
          patched =
            (if isBeforeCreate events endpoint then
               Inr (blockingConfig\<lparr>triggers := Some
                      \<lparr>beforeCreate = Some \<lparr>functionUri = uri endpoint\<rparr>,
                       beforeSignIn = beforeSignInOf blockingConfig\<rparr>\<rparr>)
             else if isBeforeSignIn events endpoint then
               Inr (blockingConfig\<lparr>triggers := Some
                      \<lparr>beforeCreate = beforeCreateOf blockingConfig,
                       beforeSignIn = Some \<lparr>functionUri = uri endpoint\<rparr>\<rparr>\<rparr>)
             else Inl (FirebaseError ''Invalid auth blocking trigger type.''))
      in case patched of
           Inl e \<Rightarrow> (Inl e, remote)
         | Inr config \<Rightarrow>
             let config' =
                   (if \<not> update then
                      config\<lparr>forwardInboundCredentials := Some
                        \<lparr>accessToken = toString (orFalse (accessToken (blockingTrigger endpoint))),
                         idToken = toString (orFalse (idToken (blockingTrigger endpoint))),
                         refreshToken = toString (orFalse (refreshToken (blockingTrigger endpoint)))\<rparr>\<rparr>
                    else config)
             in (Inr (), setBlockingFunctionsConfig (project endpoint) config' remote))"

text \<open>
  \<^verbatim>\<open>unregisterAuthBlockingTriggerFromIdentityPlatform\<close> (lines 113 to 149). The
  dispatch has three outcomes: the early return (\<open>Inr None\<close>), a patched configuration
  to write back, or the thrown error.
\<close>

definition unregisterAuthBlockingTriggerFromIdentityPlatform ::
    "Events \<Rightarrow> BlockingEndpoint \<Rightarrow> IdentityPlatform \<Rightarrow> (error + unit) \<times> IdentityPlatform" where
  "unregisterAuthBlockingTriggerFromIdentityPlatform events endpoint remote =
     (let blockingConfig = getBlockingFunctionsConfig (project endpoint) remote;
          patched =
            (if isBeforeCreate events endpoint then
               (if \<not> truthy (functionUriOf (beforeCreateOf blockingConfig))
                   \<or> uri endpoint \<noteq> functionUriOf (beforeCreateOf blockingConfig)
                then Inr None
                else Inr (Some (blockingConfig\<lparr>triggers := Some
                       \<lparr>beforeCreate = Some \<lparr>functionUri = None\<rparr>,
                        beforeSignIn = beforeSignInOf blockingConfig\<rparr>\<rparr>)))
             else if isBeforeSignIn events endpoint then
               (if \<not> truthy (functionUriOf (beforeSignInOf blockingConfig))
                   \<or> uri endpoint \<noteq> functionUriOf (beforeSignInOf blockingConfig)
                then Inr None
                else Inr (Some (blockingConfig\<lparr>triggers := Some
                       \<lparr>beforeCreate = beforeCreateOf blockingConfig,
                        beforeSignIn = Some \<lparr>functionUri = None\<rparr>\<rparr>\<rparr>)))
             else Inl (FirebaseError ''Invalid auth blocking trigger type''))
      in case patched of
           Inl e \<Rightarrow> (Inl e, remote)
         | Inr None \<Rightarrow> (Inr (), remote)
         | Inr (Some config) \<Rightarrow>
             (Inr (), setBlockingFunctionsConfig (project endpoint) config remote))"

section \<open>Example values\<close>

text \<open>
  Concrete inputs on which the theorems below are instantiated. The strings of
  \<open>exEvents\<close> only serve as four distinct event type names.
\<close>

definition exEvents :: Events where
  "exEvents = \<lparr>v1_BEFORE_CREATE_EVENT = ''v1.beforeCreate'',
               v1_BEFORE_SIGN_IN_EVENT = ''v1.beforeSignIn'',
               v2_BEFORE_CREATE_EVENT = ''v2.beforeCreate'',
               v2_BEFORE_SIGN_IN_EVENT = ''v2.beforeSignIn''\<rparr>"

definition exEndpoint ::
    "string \<Rightarrow> string \<Rightarrow> string \<Rightarrow> bool option \<Rightarrow> bool option \<Rightarrow> bool option \<Rightarrow> BlockingEndpoint" where
  "exEndpoint i u t a b c =
     \<lparr>id_ep = i, project = ''proj'', uri = Some u,
      blockingTrigger = \<lparr>accessToken = a, idToken = b, refreshToken = c, eventType = t\<rparr>\<rparr>"

definition exA :: BlockingEndpoint where
  "exA = exEndpoint ''a'' ''https://a'' ''v2.beforeCreate'' (Some False) (Some True) None"

definition exB :: BlockingEndpoint where
  "exB = exEndpoint ''b'' ''https://b'' ''v1.beforeCreate'' None None None"

definition exC :: BlockingEndpoint where
  "exC = exEndpoint ''c'' ''https://c'' ''v2.beforeCreate'' None None (Some True)"

definition exS :: BlockingEndpoint where
  "exS = exEndpoint ''s'' ''https://s'' ''v1.beforeSignIn'' (Some True) None (Some False)"

definition exX :: BlockingEndpoint where
  "exX = exEndpoint ''x'' ''https://x'' ''v1.beforeDelete'' None None None"

definition exB2 :: BlockingEndpoint where
  "exB2 = exEndpoint ''b2'' ''https://b2'' ''v1.beforeCreate'' None None None"

definition exHttps :: Endpoint where
  "exHttps = OtherTriggered \<lparr>id_ep = ''h'', project = ''proj'', uri = None\<rparr>"

definition exPlan :: "BlockingEndpoint list \<Rightarrow> Backend" where
  "exPlan eps = \<lparr>endpoints = exHttps # map BlockingTriggered eps,
                 resourceOptions = \<lparr>identityPlatform = None\<rparr>\<rparr>"

definition exMergedPlan :: Backend where
  "exMergedPlan = \<lparr>endpoints = [BlockingTriggered exA],
                   resourceOptions = \<lparr>identityPlatform =
                     Some \<lparr>accessToken = False, idToken = True, refreshToken = False\<rparr>\<rparr>\<rparr>"

definition exConfig :: BlockingFunctionsConfig where
  "exConfig = \<lparr>triggers = Some \<lparr>beforeCreate = Some \<lparr>functionUri = Some ''https://old''\<rparr>,
                                beforeSignIn = Some \<lparr>functionUri = Some ''https://s''\<rparr>\<rparr>,
               forwardInboundCredentials =
                 Some \<lparr>accessToken = ''true'', idToken = ''false'', refreshToken = ''true''\<rparr>\<rparr>"

definition exRemote :: IdentityPlatform where
  "exRemote = \<lparr>configOf = (\<lambda>_. exConfig), setCalls = []\<rparr>"

section \<open>Properties of validation and merging\<close>

lemma blockingEndpoints_filter:
  "map BlockingTriggered (blockingEndpoints wantBackend)
     = filter isBlockingTriggered (allEndpoints wantBackend)"
proof -
  have "map BlockingTriggered (List.map_filter asBlockingTriggered xs)
          = filter isBlockingTriggered xs" for xs
  proof (induction xs)
    case Nil
    show ?case by (simp add: List.map_filter_simps)
  next
    case (Cons x xs)
    then show ?case
      by (cases x) (simp_all add: List.map_filter_simps isBlockingTriggered_def)
  qed
  then show ?thesis by (simp add: blockingEndpoints_def)
qed

lemma blockingEndpoints_exPlan: "blockingEndpoints (exPlan eps) = eps"
proof -
  have "List.map_filter asBlockingTriggered (map BlockingTriggered xs) = xs" for xs
    by (induction xs) (simp_all add: List.map_filter_simps)
  then show ?thesis
    by (simp add: blockingEndpoints_def allEndpoints_def exPlan_def exHttps_def
          List.map_filter_simps)
qed

lemma blockingEndpoints_resourceOptions_update:
  "blockingEndpoints (wantBackend\<lparr>resourceOptions := ro\<rparr>) = blockingEndpoints wantBackend"
  by (simp add: blockingEndpoints_def allEndpoints_def)

lemma find_duplicate:
  assumes "ep \<in> set xs" and "eventType (blockingTrigger ep) = t" and "id_ep ep \<noteq> i"
  shows "List.find (\<lambda>ep. eventType (blockingTrigger ep) = t \<and> id_ep ep \<noteq> i) xs \<noteq> None"
  using assms by (auto simp: find_None_iff)

lemma find_no_duplicate:
  assumes "\<forall>ep\<in>set xs. eventType (blockingTrigger ep) = t \<longrightarrow> id_ep ep = i"
  shows "List.find (\<lambda>ep. eventType (blockingTrigger ep) = t \<and> id_ep ep \<noteq> i) xs = None"
  using assms by (auto simp: find_None_iff)

lemma exEndpoint_sel:
  "id_ep (exEndpoint i u t a b c) = i"
  "project (exEndpoint i u t a b c) = ''proj''"
  "uri (exEndpoint i u t a b c) = Some u"
  "eventType (blockingTrigger (exEndpoint i u t a b c)) = t"
  "accessToken (blockingTrigger (exEndpoint i u t a b c)) = a"
  "idToken (blockingTrigger (exEndpoint i u t a b c)) = b"
  "refreshToken (blockingTrigger (exEndpoint i u t a b c)) = c"
  by (simp_all add: exEndpoint_def)

lemma exEvents_family:
  "isBeforeCreate exEvents (exEndpoint i u t a b c) \<longleftrightarrow> t = ''v1.beforeCreate'' \<or> t = ''v2.beforeCreate''"
  "isBeforeSignIn exEvents (exEndpoint i u t a b c) \<longleftrightarrow> t = ''v1.beforeSignIn'' \<or> t = ''v2.beforeSignIn''"
  by (simp_all add: isBeforeCreate_def isBeforeSignIn_def exEvents_def exEndpoint_def)

lemma exRemote_fetched: "getBlockingFunctionsConfig ''proj'' exRemote = exConfig"
  by (simp add: getBlockingFunctionsConfig_def exRemote_def)

text \<open>
  C1. Whenever the plan holds a blocking endpoint with another id and the same event
  type as the endpoint under validation, the call throws the duplicate-trigger error
  for that event type.
\<close>

theorem ensure_duplicate_fails:
  assumes "ep \<in> set (blockingEndpoints wantBackend)"
    and "id_ep ep \<noteq> id_ep endpoint"
    and "eventType (blockingTrigger ep) = eventType (blockingTrigger endpoint)"
  shows "fst (ensureAuthBlockingTriggerIsValid endpoint wantBackend)
           = Inl (duplicateTriggerError (eventType (blockingTrigger endpoint)))"
  using find_duplicate [OF assms(1) assms(3) assms(2)]
  by (simp add: ensureAuthBlockingTriggerIsValid_def)

theorem ensure_duplicate_fails_witness:
  "exC \<in> set (blockingEndpoints (exPlan [exB, exC, exA]))
   \<and> id_ep exC \<noteq> id_ep exA
   \<and> eventType (blockingTrigger exC) = eventType (blockingTrigger exA)
   \<and> fst (ensureAuthBlockingTriggerIsValid exA (exPlan [exB, exC, exA]))
       = Inl (FirebaseError
           ''Can only create at most one Auth Blocking Trigger for v2.beforeCreate events'')"
proof -
  have h1: "exC \<in> set (blockingEndpoints (exPlan [exB, exC, exA]))"
    by (simp add: blockingEndpoints_exPlan)
  have h2: "id_ep exC \<noteq> id_ep exA"
    by (simp add: exA_def exC_def exEndpoint_def)
  have h3: "eventType (blockingTrigger exC) = eventType (blockingTrigger exA)"
    by (simp add: exA_def exC_def exEndpoint_def)
  have "eventType (blockingTrigger exA) = ''v2.beforeCreate''"
    by (simp add: exA_def exEndpoint_def)
  with ensure_duplicate_fails [OF h1 h2 h3] h1 h2 h3 show ?thesis
    by (simp add: duplicateTriggerError_def)
qed

lemma ensure_no_duplicate:
  assumes "\<forall>ep\<in>set (blockingEndpoints wantBackend).
             eventType (blockingTrigger ep) = eventType (blockingTrigger endpoint)
             \<longrightarrow> id_ep ep = id_ep endpoint"
  shows "ensureAuthBlockingTriggerIsValid endpoint wantBackend =
           (Inr (), wantBackend\<lparr>resourceOptions := (resourceOptions wantBackend)\<lparr>identityPlatform :=
              Some \<lparr>accessToken =
                      orFalse (map_option accessToken (identityPlatform (resourceOptions wantBackend)))
                      \<or> accessToken (blockingTrigger endpoint) = Some True,
                    idToken =
                      orFalse (map_option idToken (identityPlatform (resourceOptions wantBackend)))
                      \<or> idToken (blockingTrigger endpoint) = Some True,
                    refreshToken =
                      orFalse (map_option refreshToken (identityPlatform (resourceOptions wantBackend)))
                      \<or> refreshToken (blockingTrigger endpoint) = Some True\<rparr>\<rparr>\<rparr>)"
proof (cases "identityPlatform (resourceOptions wantBackend)")
  case None
  show ?thesis
    unfolding ensureAuthBlockingTriggerIsValid_def find_no_duplicate [OF assms] None
    by (simp add: Let_def orFalse_def split: option.split)
next
  case (Some ip)
  obtain a b c where ip: "ip = \<lparr>accessToken = a, idToken = b, refreshToken = c\<rparr>"
    by (cases ip) simp
  show ?thesis
    unfolding ensureAuthBlockingTriggerIsValid_def find_no_duplicate [OF assms] Some ip
    by (simp add: Let_def orFalse_def split: option.split)
qed

lemma ensureAll_no_duplicates:
  assumes "\<forall>endpoint\<in>set es. \<forall>ep\<in>set (blockingEndpoints wantBackend).
             eventType (blockingTrigger ep) = eventType (blockingTrigger endpoint)
             \<longrightarrow> id_ep ep = id_ep endpoint"
  shows "ensureAll es wantBackend =
           (Inr (), wantBackend\<lparr>resourceOptions := (resourceOptions wantBackend)\<lparr>identityPlatform :=
              (if es = [] then identityPlatform (resourceOptions wantBackend) else
               Some \<lparr>accessToken =
                       orFalse (map_option accessToken (identityPlatform (resourceOptions wantBackend)))
                       \<or> (\<exists>e\<in>set es. accessToken (blockingTrigger e) = Some True),
                     idToken =
                       orFalse (map_option idToken (identityPlatform (resourceOptions wantBackend)))
                       \<or> (\<exists>e\<in>set es. idToken (blockingTrigger e) = Some True),
                     refreshToken =
                       orFalse (map_option refreshToken (identityPlatform (resourceOptions wantBackend)))
                       \<or> (\<exists>e\<in>set es. refreshToken (blockingTrigger e) = Some True)\<rparr>)\<rparr>\<rparr>)"
  using assms
proof (induction es arbitrary: wantBackend)
  case Nil
  then show ?case by simp
next
  case (Cons e es)
  let ?b = "wantBackend\<lparr>resourceOptions := (resourceOptions wantBackend)\<lparr>identityPlatform :=
              Some \<lparr>accessToken =
                      orFalse (map_option accessToken (identityPlatform (resourceOptions wantBackend)))
                      \<or> accessToken (blockingTrigger e) = Some True,
                    idToken =
                      orFalse (map_option idToken (identityPlatform (resourceOptions wantBackend)))
                      \<or> idToken (blockingTrigger e) = Some True,
                    refreshToken =
                      orFalse (map_option refreshToken (identityPlatform (resourceOptions wantBackend)))
                      \<or> refreshToken (blockingTrigger e) = Some True\<rparr>\<rparr>\<rparr>"
  have step: "ensureAuthBlockingTriggerIsValid e wantBackend = (Inr (), ?b)"
    using Cons.prems by (intro ensure_no_duplicate) simp
  have "\<forall>endpoint\<in>set es. \<forall>ep\<in>set (blockingEndpoints ?b).
             eventType (blockingTrigger ep) = eventType (blockingTrigger endpoint)
             \<longrightarrow> id_ep ep = id_ep endpoint"
    using Cons.prems by (simp add: blockingEndpoints_resourceOptions_update)
  from Cons.IH [OF this] show ?case
    by (cases "es = []") (auto simp: step orFalse_def)
qed

text \<open>
  C2. Start from a plan without merged options whose blocking endpoints have pairwise
  different event types, and validate each blocking endpoint once, in any order
  (\<open>order\<close> is a permutation of the plan's blocking endpoints). No call throws, the
  endpoints of the plan stay as they are, and each of the three merged flags, read
  with undefined as false, is the disjunction over all blocking endpoints of the
  endpoint's flag, read with undefined as false. When the plan has a blocking endpoint
  the merged options are present and hold exactly these three booleans; a plan with no
  blocking endpoint sees no call, and its merged options stay absent.
\<close>

theorem ensureAll_merges_flags:
  fixes order wantBackend
  defines "blocking \<equiv> blockingEndpoints wantBackend"
    and "merged \<equiv> identityPlatform (resourceOptions (snd (ensureAll order wantBackend)))"
  assumes "identityPlatform (resourceOptions wantBackend) = None"
    and "mset order = mset (blockingEndpoints wantBackend)"
    and "distinct (map (\<lambda>ep. eventType (blockingTrigger ep)) (blockingEndpoints wantBackend))"
  shows "ensureAll order wantBackend =
           (Inr (), wantBackend\<lparr>resourceOptions := (resourceOptions wantBackend)\<lparr>identityPlatform :=
              (if blocking = [] then None else
               Some \<lparr>accessToken = (\<exists>ep\<in>set blocking. orFalse (accessToken (blockingTrigger ep))),
                     idToken = (\<exists>ep\<in>set blocking. orFalse (idToken (blockingTrigger ep))),
                     refreshToken = (\<exists>ep\<in>set blocking. orFalse (refreshToken (blockingTrigger ep)))\<rparr>)\<rparr>\<rparr>)
       \<and> orFalse (map_option accessToken merged)
           = (\<exists>ep\<in>set blocking. orFalse (accessToken (blockingTrigger ep)))
       \<and> orFalse (map_option idToken merged)
           = (\<exists>ep\<in>set blocking. orFalse (idToken (blockingTrigger ep)))
       \<and> orFalse (map_option refreshToken merged)
           = (\<exists>ep\<in>set blocking. orFalse (refreshToken (blockingTrigger ep)))"
proof -
  have s: "set order = set (blockingEndpoints wantBackend)"
    using assms(4) by (rule mset_eq_setD)
  have e: "order = [] \<longleftrightarrow> blockingEndpoints wantBackend = []"
    using assms(4) by (metis mset_zero_iff)
  have inj: "inj_on (\<lambda>ep. eventType (blockingTrigger ep)) (set (blockingEndpoints wantBackend))"
    using assms(5) by (simp add: distinct_map)
  have t: "(x = Some True) = orFalse x" for x
    by (cases x) (simp_all add: orFalse_def)
  have "\<forall>endpoint\<in>set order. \<forall>ep\<in>set (blockingEndpoints wantBackend).
             eventType (blockingTrigger ep) = eventType (blockingTrigger endpoint)
             \<longrightarrow> id_ep ep = id_ep endpoint"
    using inj s by (auto dest: inj_onD)
  from ensureAll_no_duplicates [OF this]
  have run: "ensureAll order wantBackend =
           (Inr (), wantBackend\<lparr>resourceOptions := (resourceOptions wantBackend)\<lparr>identityPlatform :=
              (if blocking = [] then None else
               Some \<lparr>accessToken = (\<exists>ep\<in>set blocking. orFalse (accessToken (blockingTrigger ep))),
                     idToken = (\<exists>ep\<in>set blocking. orFalse (idToken (blockingTrigger ep))),
                     refreshToken = (\<exists>ep\<in>set blocking. orFalse (refreshToken (blockingTrigger ep)))\<rparr>)\<rparr>\<rparr>)"
    unfolding blocking_def by (simp add: assms(3) s e t) (simp add: orFalse_def)
  have m: "merged = (if blocking = [] then None else
               Some \<lparr>accessToken = (\<exists>ep\<in>set blocking. orFalse (accessToken (blockingTrigger ep))),
                     idToken = (\<exists>ep\<in>set blocking. orFalse (idToken (blockingTrigger ep))),
                     refreshToken = (\<exists>ep\<in>set blocking. orFalse (refreshToken (blockingTrigger ep)))\<rparr>)"
    unfolding merged_def run by simp
  show ?thesis
    unfolding m using run by (simp add: orFalse_def)
qed

theorem ensureAll_merges_flags_witness:
  "identityPlatform (resourceOptions (exPlan [exA, exB, exS])) = None
   \<and> mset [exS, exA, exB] = mset (blockingEndpoints (exPlan [exA, exB, exS]))
   \<and> distinct (map (\<lambda>ep. eventType (blockingTrigger ep)) (blockingEndpoints (exPlan [exA, exB, exS])))
   \<and> ensureAll [exS, exA, exB] (exPlan [exA, exB, exS])
       = (Inr (), (exPlan [exA, exB, exS])\<lparr>resourceOptions := \<lparr>identityPlatform =
            Some \<lparr>accessToken = True, idToken = True, refreshToken = False\<rparr>\<rparr>\<rparr>)"
proof -
  have h1: "identityPlatform (resourceOptions (exPlan [exA, exB, exS])) = None"
    by (simp add: exPlan_def)
  have h2: "mset [exS, exA, exB] = mset (blockingEndpoints (exPlan [exA, exB, exS]))"
    by (simp add: blockingEndpoints_exPlan)
  have h3: "distinct (map (\<lambda>ep. eventType (blockingTrigger ep))
              (blockingEndpoints (exPlan [exA, exB, exS])))"
    by (simp add: blockingEndpoints_exPlan exA_def exB_def exS_def exEndpoint_sel)
  have flags: "accessToken (blockingTrigger exA) = Some False"
      "idToken (blockingTrigger exA) = Some True" "refreshToken (blockingTrigger exA) = None"
      "accessToken (blockingTrigger exB) = None"
      "idToken (blockingTrigger exB) = None" "refreshToken (blockingTrigger exB) = None"
      "accessToken (blockingTrigger exS) = Some True"
      "idToken (blockingTrigger exS) = None" "refreshToken (blockingTrigger exS) = Some False"
    by (simp_all add: exA_def exB_def exS_def exEndpoint_sel)
  have ro: "resourceOptions (exPlan [exA, exB, exS]) = \<lparr>identityPlatform = None\<rparr>"
    by (simp add: exPlan_def)
  from ensureAll_merges_flags [OF h1 h2 h3] h1 h2 h3 show ?thesis
    by (simp add: blockingEndpoints_exPlan flags ro orFalse_def)
qed

text \<open>
  C9. Duplicate detection compares the event type strings themselves, not the family.
  Take a plan that contains two blocking endpoints with different ids, one with the v1
  and one with the v2 name of the same event (before-create, or before-sign-in), the
  two names being different strings. If no further blocking endpoint of the plan has
  the event type string of one of the two together with another id than that one,
  then validating either of the two endpoints does not throw. Without that condition
  the call can throw: a third endpoint that repeats the v1 name under another id is a
  duplicate of the first, as the counterexample shows.
\<close>

theorem ensure_v1_v2_pair_accepted:
  assumes "e1 \<in> set (blockingEndpoints wantBackend)"
    and "e2 \<in> set (blockingEndpoints wantBackend)"
    and "id_ep e1 \<noteq> id_ep e2"
    and "eventType (blockingTrigger e1) = v1_BEFORE_CREATE_EVENT events
           \<and> eventType (blockingTrigger e2) = v2_BEFORE_CREATE_EVENT events
           \<and> v1_BEFORE_CREATE_EVENT events \<noteq> v2_BEFORE_CREATE_EVENT events
         \<or> eventType (blockingTrigger e1) = v1_BEFORE_SIGN_IN_EVENT events
           \<and> eventType (blockingTrigger e2) = v2_BEFORE_SIGN_IN_EVENT events
           \<and> v1_BEFORE_SIGN_IN_EVENT events \<noteq> v2_BEFORE_SIGN_IN_EVENT events"
    and "\<forall>ep\<in>set (blockingEndpoints wantBackend). ep \<noteq> e1 \<and> ep \<noteq> e2 \<longrightarrow>
           (eventType (blockingTrigger ep) = eventType (blockingTrigger e1)
              \<longrightarrow> id_ep ep = id_ep e1)
           \<and> (eventType (blockingTrigger ep) = eventType (blockingTrigger e2)
              \<longrightarrow> id_ep ep = id_ep e2)"
  shows "fst (ensureAuthBlockingTriggerIsValid e1 wantBackend) = Inr ()
       \<and> fst (ensureAuthBlockingTriggerIsValid e2 wantBackend) = Inr ()"
proof -
  have ne: "eventType (blockingTrigger e1) \<noteq> eventType (blockingTrigger e2)"
    using assms(4) by auto
  have "\<forall>ep\<in>set (blockingEndpoints wantBackend).
          eventType (blockingTrigger ep) = eventType (blockingTrigger e1)
          \<longrightarrow> id_ep ep = id_ep e1"
    using ne assms(5) by metis
  then have "List.find (\<lambda>ep. eventType (blockingTrigger ep) = eventType (blockingTrigger e1)
                 \<and> id_ep ep \<noteq> id_ep e1) (blockingEndpoints wantBackend) = None"
    by (rule find_no_duplicate)
  moreover have "\<forall>ep\<in>set (blockingEndpoints wantBackend).
          eventType (blockingTrigger ep) = eventType (blockingTrigger e2)
          \<longrightarrow> id_ep ep = id_ep e2"
    using ne assms(5) by metis
  then have "List.find (\<lambda>ep. eventType (blockingTrigger ep) = eventType (blockingTrigger e2)
                 \<and> id_ep ep \<noteq> id_ep e2) (blockingEndpoints wantBackend) = None"
    by (rule find_no_duplicate)
  ultimately show ?thesis
    by (simp add: ensureAuthBlockingTriggerIsValid_def Let_def)
qed

theorem ensure_v1_v2_pair_accepted_witness:
  "exB \<in> set (blockingEndpoints (exPlan [exB, exA, exS]))
   \<and> exA \<in> set (blockingEndpoints (exPlan [exB, exA, exS]))
   \<and> id_ep exB \<noteq> id_ep exA
   \<and> eventType (blockingTrigger exB) = v1_BEFORE_CREATE_EVENT exEvents
   \<and> eventType (blockingTrigger exA) = v2_BEFORE_CREATE_EVENT exEvents
   \<and> v1_BEFORE_CREATE_EVENT exEvents \<noteq> v2_BEFORE_CREATE_EVENT exEvents
   \<and> eventType (blockingTrigger exS) \<noteq> eventType (blockingTrigger exB)
   \<and> eventType (blockingTrigger exS) \<noteq> eventType (blockingTrigger exA)
   \<and> fst (ensureAuthBlockingTriggerIsValid exB (exPlan [exB, exA, exS])) = Inr ()
   \<and> fst (ensureAuthBlockingTriggerIsValid exA (exPlan [exB, exA, exS])) = Inr ()"
proof -
  have h1: "exB \<in> set (blockingEndpoints (exPlan [exB, exA, exS]))"
    and h2: "exA \<in> set (blockingEndpoints (exPlan [exB, exA, exS]))"
    by (simp_all add: blockingEndpoints_exPlan)
  have h3: "id_ep exB \<noteq> id_ep exA"
    by (simp add: exA_def exB_def exEndpoint_sel)
  have h4: "eventType (blockingTrigger exB) = v1_BEFORE_CREATE_EVENT exEvents
            \<and> eventType (blockingTrigger exA) = v2_BEFORE_CREATE_EVENT exEvents
            \<and> v1_BEFORE_CREATE_EVENT exEvents \<noteq> v2_BEFORE_CREATE_EVENT exEvents"
    by (simp add: exA_def exB_def exEndpoint_sel exEvents_def)
  have s: "eventType (blockingTrigger exS) \<noteq> eventType (blockingTrigger exB)"
      "eventType (blockingTrigger exS) \<noteq> eventType (blockingTrigger exA)"
    by (simp_all add: exA_def exB_def exS_def exEndpoint_sel)
  have h5: "\<forall>ep\<in>set (blockingEndpoints (exPlan [exB, exA, exS])). ep \<noteq> exB \<and> ep \<noteq> exA \<longrightarrow>
           (eventType (blockingTrigger ep) = eventType (blockingTrigger exB)
              \<longrightarrow> id_ep ep = id_ep exB)
           \<and> (eventType (blockingTrigger ep) = eventType (blockingTrigger exA)
              \<longrightarrow> id_ep ep = id_ep exA)"
    by (simp add: blockingEndpoints_exPlan s)
  from ensure_v1_v2_pair_accepted [OF h1 h2 h3 disjI1 [OF h4] h5] h1 h2 h3 h4 s
  show ?thesis by simp
qed

theorem ensure_v1_v2_third_duplicate_counterexample:
  "exB \<in> set (blockingEndpoints (exPlan [exB, exA, exB2]))
   \<and> exA \<in> set (blockingEndpoints (exPlan [exB, exA, exB2]))
   \<and> id_ep exB \<noteq> id_ep exA
   \<and> eventType (blockingTrigger exB) = v1_BEFORE_CREATE_EVENT exEvents
   \<and> eventType (blockingTrigger exA) = v2_BEFORE_CREATE_EVENT exEvents
   \<and> v1_BEFORE_CREATE_EVENT exEvents \<noteq> v2_BEFORE_CREATE_EVENT exEvents
   \<and> fst (ensureAuthBlockingTriggerIsValid exB (exPlan [exB, exA, exB2]))
       = Inl (FirebaseError
           ''Can only create at most one Auth Blocking Trigger for v1.beforeCreate events'')"
proof -
  have sel: "eventType (blockingTrigger exB) = ''v1.beforeCreate''" "id_ep exB = ''b''"
      "eventType (blockingTrigger exA) = ''v2.beforeCreate''" "id_ep exA = ''a''"
      "eventType (blockingTrigger exB2) = ''v1.beforeCreate''" "id_ep exB2 = ''b2''"
    by (simp_all add: exA_def exB_def exB2_def exEndpoint_sel)
  have run: "fst (ensureAuthBlockingTriggerIsValid exB (exPlan [exB, exA, exB2]))
       = Inl (FirebaseError
           ''Can only create at most one Auth Blocking Trigger for v1.beforeCreate events'')"
    by (simp add: ensureAuthBlockingTriggerIsValid_def blockingEndpoints_exPlan sel
          duplicateTriggerError_def)
  show ?thesis
    by (simp add: run blockingEndpoints_exPlan sel exEvents_def)
qed

text \<open>
  C10. When the call throws the duplicate-trigger error, the plan is left exactly as
  it was, hence also its merged options: merged options that were absent stay absent.
\<close>

theorem ensure_duplicate_leaves_plan:
  assumes "fst (ensureAuthBlockingTriggerIsValid endpoint wantBackend)
             = Inl (duplicateTriggerError (eventType (blockingTrigger endpoint)))"
  shows "snd (ensureAuthBlockingTriggerIsValid endpoint wantBackend) = wantBackend"
  using assms by (simp add: ensureAuthBlockingTriggerIsValid_def Let_def split: if_splits)

theorem ensure_duplicate_leaves_plan_witness:
  "fst (ensureAuthBlockingTriggerIsValid exA (exPlan [exC, exA]))
     = Inl (duplicateTriggerError (eventType (blockingTrigger exA)))
   \<and> snd (ensureAuthBlockingTriggerIsValid exA (exPlan [exC, exA])) = exPlan [exC, exA]
   \<and> identityPlatform (resourceOptions
         (snd (ensureAuthBlockingTriggerIsValid exA (exPlan [exC, exA])))) = None"
proof -
  have "List.find (\<lambda>ep. eventType (blockingTrigger ep) = eventType (blockingTrigger exA)
                 \<and> id_ep ep \<noteq> id_ep exA) (blockingEndpoints (exPlan [exC, exA])) \<noteq> None"
    by (simp add: blockingEndpoints_exPlan exA_def exC_def exEndpoint_sel)
  then have h: "fst (ensureAuthBlockingTriggerIsValid exA (exPlan [exC, exA]))
                  = Inl (duplicateTriggerError (eventType (blockingTrigger exA)))"
    by (simp add: ensureAuthBlockingTriggerIsValid_def)
  have "identityPlatform (resourceOptions (exPlan [exC, exA])) = None"
    by (simp add: exPlan_def)
  with ensure_duplicate_leaves_plan [OF h] h show ?thesis
    by simp
qed

text \<open>
  C8. Copying the plan's merged options to an endpoint twice gives the same endpoint as
  copying them once, and each flag of the result is the plan's merged flag, false when
  the merged options are absent.
\<close>

theorem copy_idempotent:
  "copyIdentityPlatformOptionsToEndpoint
       (copyIdentityPlatformOptionsToEndpoint endpoint wantBackend) wantBackend
     = copyIdentityPlatformOptionsToEndpoint endpoint wantBackend
   \<and> accessToken (blockingTrigger (copyIdentityPlatformOptionsToEndpoint endpoint wantBackend))
       = Some (case identityPlatform (resourceOptions wantBackend) of
                 None \<Rightarrow> False | Some ip \<Rightarrow> accessToken ip)
   \<and> idToken (blockingTrigger (copyIdentityPlatformOptionsToEndpoint endpoint wantBackend))
       = Some (case identityPlatform (resourceOptions wantBackend) of
                 None \<Rightarrow> False | Some ip \<Rightarrow> idToken ip)
   \<and> refreshToken (blockingTrigger (copyIdentityPlatformOptionsToEndpoint endpoint wantBackend))
       = Some (case identityPlatform (resourceOptions wantBackend) of
                 None \<Rightarrow> False | Some ip \<Rightarrow> refreshToken ip)"
  by (simp add: copyIdentityPlatformOptionsToEndpoint_def orFalse_def Let_def
           split: option.split)

theorem copy_idempotent_witness:
  "copyIdentityPlatformOptionsToEndpoint
       (copyIdentityPlatformOptionsToEndpoint exS exMergedPlan) exMergedPlan
     = copyIdentityPlatformOptionsToEndpoint exS exMergedPlan
   \<and> accessToken (blockingTrigger (copyIdentityPlatformOptionsToEndpoint exS exMergedPlan))
       = Some False
   \<and> idToken (blockingTrigger (copyIdentityPlatformOptionsToEndpoint exS exMergedPlan))
       = Some True
   \<and> refreshToken (blockingTrigger (copyIdentityPlatformOptionsToEndpoint exS exMergedPlan))
       = Some False"
  using copy_idempotent [of exS exMergedPlan]
  by (simp add: exMergedPlan_def)

section \<open>Properties of registration\<close>

text \<open>
  C3. For a before-create endpoint (v1 or v2 name), registration returns normally and
  makes exactly one write, to the endpoint's project; in the written configuration the
  \<open>beforeCreate\<close> slot is \<open>{functionUri: endpoint.uri}\<close> and the \<open>beforeSignIn\<close> slot is
  the one of the fetched configuration. For a before-sign-in endpoint the roles of the
  two slots are exchanged. The dispatch tests before-create first, so the second case is
  the one where the event type is no before-create name.
\<close>

theorem register_sets_slot_keeps_other:
  fixes events endpoint update remote
  defines "fetched \<equiv> getBlockingFunctionsConfig (project endpoint) remote"
    and "result \<equiv> registerAuthBlockingTriggerToIdentityPlatform events endpoint update remote"
  defines "written \<equiv> getBlockingFunctionsConfig (project endpoint) (snd result)"
  shows "(isBeforeCreate events endpoint \<longrightarrow>
            fst result = Inr ()
            \<and> setCalls (snd result) = setCalls remote @ [(project endpoint, written)]
            \<and> triggers written = Some \<lparr>beforeCreate = Some \<lparr>functionUri = uri endpoint\<rparr>,
                                        beforeSignIn = beforeSignInOf fetched\<rparr>)
       \<and> (\<not> isBeforeCreate events endpoint \<and> isBeforeSignIn events endpoint \<longrightarrow>
            fst result = Inr ()
            \<and> setCalls (snd result) = setCalls remote @ [(project endpoint, written)]
            \<and> triggers written = Some \<lparr>beforeCreate = beforeCreateOf fetched,
                                        beforeSignIn = Some \<lparr>functionUri = uri endpoint\<rparr>\<rparr>)"
  unfolding fetched_def result_def written_def
  by (simp add: registerAuthBlockingTriggerToIdentityPlatform_def Let_def
        getBlockingFunctionsConfig_def setBlockingFunctionsConfig_def)

theorem register_sets_slot_keeps_other_witness:
  "isBeforeCreate exEvents exA
   \<and> \<not> isBeforeCreate exEvents exS \<and> isBeforeSignIn exEvents exS
   \<and> registerAuthBlockingTriggerToIdentityPlatform exEvents exA True exRemote
       = (Inr (), setBlockingFunctionsConfig ''proj''
            (exConfig\<lparr>triggers := Some
               \<lparr>beforeCreate = Some \<lparr>functionUri = Some ''https://a''\<rparr>,
                beforeSignIn = Some \<lparr>functionUri = Some ''https://s''\<rparr>\<rparr>\<rparr>) exRemote)
   \<and> triggers (getBlockingFunctionsConfig ''proj''
         (snd (registerAuthBlockingTriggerToIdentityPlatform exEvents exA True exRemote)))
       = Some \<lparr>beforeCreate = Some \<lparr>functionUri = Some ''https://a''\<rparr>,
               beforeSignIn = Some \<lparr>functionUri = Some ''https://s''\<rparr>\<rparr>
   \<and> triggers (getBlockingFunctionsConfig ''proj''
         (snd (registerAuthBlockingTriggerToIdentityPlatform exEvents exS True exRemote)))
       = Some \<lparr>beforeCreate = Some \<lparr>functionUri = Some ''https://old''\<rparr>,
               beforeSignIn = Some \<lparr>functionUri = Some ''https://s''\<rparr>\<rparr>"
proof -
  have hA: "isBeforeCreate exEvents exA"
    by (simp add: exA_def exEvents_family)
  have hS: "\<not> isBeforeCreate exEvents exS \<and> isBeforeSignIn exEvents exS"
    by (simp add: exS_def exEvents_family)
  have slots: "beforeSignInOf exConfig = Some \<lparr>functionUri = Some ''https://s''\<rparr>"
      "beforeCreateOf exConfig = Some \<lparr>functionUri = Some ''https://old''\<rparr>"
    by (simp_all add: beforeSignInOf_def beforeCreateOf_def exConfig_def)
  have sel: "project exA = ''proj''" "uri exA = Some ''https://a''"
      "project exS = ''proj''" "uri exS = Some ''https://s''"
    by (simp_all add: exA_def exS_def exEndpoint_sel)
  have run: "registerAuthBlockingTriggerToIdentityPlatform exEvents exA True exRemote
       = (Inr (), setBlockingFunctionsConfig ''proj''
            (exConfig\<lparr>triggers := Some
               \<lparr>beforeCreate = Some \<lparr>functionUri = Some ''https://a''\<rparr>,
                beforeSignIn = Some \<lparr>functionUri = Some ''https://s''\<rparr>\<rparr>\<rparr>) exRemote)"
    by (simp add: registerAuthBlockingTriggerToIdentityPlatform_def Let_def hA
          exRemote_fetched slots sel)
  from register_sets_slot_keeps_other [of exEvents exA True exRemote]
       register_sets_slot_keeps_other [of exEvents exS True exRemote]
       hA hS run
  show ?thesis
    by (simp add: exRemote_fetched slots sel)
qed

text \<open>
  C4. For an endpoint with a recognized event type, a fresh registration
  (\<open>update = False\<close>) writes a configuration whose forwarding flags are the endpoint's
  three flags as the strings "true" and "false", an undefined flag giving "false"; an
  update (\<open>update = True\<close>) writes the forwarding flags of the fetched configuration.
\<close>

theorem register_forwardInboundCredentials:
  fixes events endpoint update remote
  defines "fetched \<equiv> getBlockingFunctionsConfig (project endpoint) remote"
    and "result \<equiv> registerAuthBlockingTriggerToIdentityPlatform events endpoint update remote"
  defines "written \<equiv> getBlockingFunctionsConfig (project endpoint) (snd result)"
  assumes "isBeforeCreate events endpoint \<or> isBeforeSignIn events endpoint"
  shows "fst result = Inr ()
       \<and> setCalls (snd result) = setCalls remote @ [(project endpoint, written)]
       \<and> (\<not> update \<longrightarrow> forwardInboundCredentials written = Some
             \<lparr>accessToken =
                (if accessToken (blockingTrigger endpoint) = Some True then ''true'' else ''false''),
              idToken =
                (if idToken (blockingTrigger endpoint) = Some True then ''true'' else ''false''),
              refreshToken =
                (if refreshToken (blockingTrigger endpoint) = Some True then ''true'' else ''false'')\<rparr>)
       \<and> (update \<longrightarrow> forwardInboundCredentials written = forwardInboundCredentials fetched)"
proof -
  have str: "toString (orFalse x) = (if x = Some True then ''true'' else ''false'')" for x
    by (cases x) (simp_all add: toString_def orFalse_def)
  show ?thesis
    using assms(4) unfolding fetched_def result_def written_def
    by (auto simp add: registerAuthBlockingTriggerToIdentityPlatform_def Let_def
          getBlockingFunctionsConfig_def setBlockingFunctionsConfig_def str)
qed

theorem register_forwardInboundCredentials_witness:
  "(isBeforeCreate exEvents exA \<or> isBeforeSignIn exEvents exA)
   \<and> forwardInboundCredentials (getBlockingFunctionsConfig ''proj''
         (snd (registerAuthBlockingTriggerToIdentityPlatform exEvents exA False exRemote)))
       = Some \<lparr>accessToken = ''false'', idToken = ''true'', refreshToken = ''false''\<rparr>
   \<and> forwardInboundCredentials (getBlockingFunctionsConfig ''proj''
         (snd (registerAuthBlockingTriggerToIdentityPlatform exEvents exA True exRemote)))
       = Some \<lparr>accessToken = ''true'', idToken = ''false'', refreshToken = ''true''\<rparr>"
proof -
  have h: "isBeforeCreate exEvents exA \<or> isBeforeSignIn exEvents exA"
    by (simp add: exA_def exEvents_family)
  have sel: "project exA = ''proj''" "accessToken (blockingTrigger exA) = Some False"
      "idToken (blockingTrigger exA) = Some True" "refreshToken (blockingTrigger exA) = None"
    by (simp_all add: exA_def exEndpoint_sel)
  have old: "forwardInboundCredentials exConfig
               = Some \<lparr>accessToken = ''true'', idToken = ''false'', refreshToken = ''true''\<rparr>"
    by (simp add: exConfig_def)
  from register_forwardInboundCredentials [OF h, of False exRemote]
       register_forwardInboundCredentials [OF h, of True exRemote] h
  show ?thesis
    by (simp add: sel exRemote_fetched old)
qed

text \<open>
  C5. For an endpoint with a recognized event type, let \<open>slot\<close> be the slot of the
  fetched configuration that matches the event type. If the slot has no function URI,
  or one that differs from the endpoint's URI, unregistration returns normally and
  leaves the remote service as it was: the stored configurations and the log of writes
  are unchanged.
\<close>

theorem unregister_mismatch_noop:
  fixes events endpoint remote
  defines "fetched \<equiv> getBlockingFunctionsConfig (project endpoint) remote"
  assumes "isBeforeCreate events endpoint \<and> slot = beforeCreateOf fetched
           \<or> \<not> isBeforeCreate events endpoint \<and> isBeforeSignIn events endpoint
               \<and> slot = beforeSignInOf fetched"
    and "functionUriOf slot = None \<or> functionUriOf slot \<noteq> uri endpoint"
  shows "unregisterAuthBlockingTriggerFromIdentityPlatform events endpoint remote = (Inr (), remote)"
  using assms(2,3) unfolding fetched_def
  by (auto simp add: unregisterAuthBlockingTriggerFromIdentityPlatform_def Let_def truthy_def)

theorem unregister_mismatch_noop_witness:
  "isBeforeCreate exEvents exB
   \<and> functionUriOf (beforeCreateOf (getBlockingFunctionsConfig (project exB) exRemote))
       = Some ''https://old''
   \<and> uri exB = Some ''https://b''
   \<and> unregisterAuthBlockingTriggerFromIdentityPlatform exEvents exB exRemote
       = (Inr (), exRemote)"
proof -
  have sel: "project exB = ''proj''" "uri exB = Some ''https://b''"
    by (simp_all add: exB_def exEndpoint_sel)
  have slot: "functionUriOf (beforeCreateOf exConfig) = Some ''https://old''"
    by (simp add: functionUriOf_def beforeCreateOf_def exConfig_def)
  have h1: "isBeforeCreate exEvents exB
              \<and> beforeCreateOf exConfig
                  = beforeCreateOf (getBlockingFunctionsConfig (project exB) exRemote)
            \<or> \<not> isBeforeCreate exEvents exB \<and> isBeforeSignIn exEvents exB
              \<and> beforeCreateOf exConfig
                  = beforeSignInOf (getBlockingFunctionsConfig (project exB) exRemote)"
    by (simp add: exB_def exEvents_family exEndpoint_sel exRemote_fetched)
  have h2: "functionUriOf (beforeCreateOf exConfig) = None
            \<or> functionUriOf (beforeCreateOf exConfig) \<noteq> uri exB"
    by (simp add: slot sel)
  have "isBeforeCreate exEvents exB"
    by (simp add: exB_def exEvents_family)
  with unregister_mismatch_noop [OF h1 h2] show ?thesis
    by (simp add: sel exRemote_fetched slot)
qed

text \<open>
  C6. For an endpoint with a recognized event type and a non-empty URI, registering it
  (as a fresh registration or as an update) and then unregistering the same endpoint
  both return normally, and the remote configuration of the project then has the empty
  object in the matching slot and, in the other slot, what that slot held before the
  registration.
\<close>

theorem register_then_unregister:
  fixes events endpoint update remote
  defines "before \<equiv> getBlockingFunctionsConfig (project endpoint) remote"
    and "registered \<equiv> registerAuthBlockingTriggerToIdentityPlatform events endpoint update remote"
  defines "unregistered \<equiv>
             unregisterAuthBlockingTriggerFromIdentityPlatform events endpoint (snd registered)"
  defines "after \<equiv> getBlockingFunctionsConfig (project endpoint) (snd unregistered)"
  assumes "uri endpoint = Some u" and "u \<noteq> []"
  shows "(isBeforeCreate events endpoint \<longrightarrow>
            fst registered = Inr () \<and> fst unregistered = Inr ()
            \<and> triggers after = Some \<lparr>beforeCreate = Some \<lparr>functionUri = None\<rparr>,
                                      beforeSignIn = beforeSignInOf before\<rparr>)
       \<and> (\<not> isBeforeCreate events endpoint \<and> isBeforeSignIn events endpoint \<longrightarrow>
            fst registered = Inr () \<and> fst unregistered = Inr ()
            \<and> triggers after = Some \<lparr>beforeCreate = beforeCreateOf before,
                                      beforeSignIn = Some \<lparr>functionUri = None\<rparr>\<rparr>)"
  using assms(5,6) unfolding before_def registered_def unregistered_def after_def
  by (simp add: registerAuthBlockingTriggerToIdentityPlatform_def
        unregisterAuthBlockingTriggerFromIdentityPlatform_def Let_def
        getBlockingFunctionsConfig_def setBlockingFunctionsConfig_def
        beforeCreateOf_def beforeSignInOf_def functionUriOf_def truthy_def)

theorem register_then_unregister_witness:
  "uri exA = Some ''https://a'' \<and> ''https://a'' \<noteq> []
   \<and> isBeforeCreate exEvents exA
   \<and> uri exS = Some ''https://s'' \<and> ''https://s'' \<noteq> []
   \<and> \<not> isBeforeCreate exEvents exS \<and> isBeforeSignIn exEvents exS
   \<and> triggers (getBlockingFunctionsConfig ''proj''
        (snd (unregisterAuthBlockingTriggerFromIdentityPlatform exEvents exA
           (snd (registerAuthBlockingTriggerToIdentityPlatform exEvents exA False exRemote)))))
       = Some \<lparr>beforeCreate = Some \<lparr>functionUri = None\<rparr>,
               beforeSignIn = Some \<lparr>functionUri = Some ''https://s''\<rparr>\<rparr>
   \<and> triggers (getBlockingFunctionsConfig ''proj''
        (snd (unregisterAuthBlockingTriggerFromIdentityPlatform exEvents exS
           (snd (registerAuthBlockingTriggerToIdentityPlatform exEvents exS True exRemote)))))
       = Some \<lparr>beforeCreate = Some \<lparr>functionUri = Some ''https://old''\<rparr>,
               beforeSignIn = Some \<lparr>functionUri = None\<rparr>\<rparr>"
proof -
  have uA: "uri exA = Some ''https://a''" and uS: "uri exS = Some ''https://s''"
    by (simp_all add: exA_def exS_def exEndpoint_sel)
  have nA: "''https://a'' \<noteq> []" and nS: "''https://s'' \<noteq> []"
    by simp_all
  have fA: "isBeforeCreate exEvents exA"
    and fS: "\<not> isBeforeCreate exEvents exS \<and> isBeforeSignIn exEvents exS"
    by (simp_all add: exA_def exS_def exEvents_family)
  have sel: "project exA = ''proj''" "project exS = ''proj''"
    by (simp_all add: exA_def exS_def exEndpoint_sel)
  have slots: "beforeSignInOf exConfig = Some \<lparr>functionUri = Some ''https://s''\<rparr>"
      "beforeCreateOf exConfig = Some \<lparr>functionUri = Some ''https://old''\<rparr>"
    by (simp_all add: beforeSignInOf_def beforeCreateOf_def exConfig_def)
  from register_then_unregister [OF uA nA, of exEvents False exRemote]
       register_then_unregister [OF uS nS, of exEvents True exRemote]
       uA uS fA fS
  show ?thesis
    by (simp add: sel exRemote_fetched slots)
qed

text \<open>
  C7. For an endpoint whose event type is none of the four recognized names, both
  registration and unregistration throw the invalid-trigger-type error and leave the
  remote service as it was, so no write is made.
\<close>

theorem unknown_event_type_fails:
  assumes "\<not> isBeforeCreate events endpoint" and "\<not> isBeforeSignIn events endpoint"
  shows "registerAuthBlockingTriggerToIdentityPlatform events endpoint update remote
           = (Inl (FirebaseError ''Invalid auth blocking trigger type.''), remote)
       \<and> unregisterAuthBlockingTriggerFromIdentityPlatform events endpoint remote
           = (Inl (FirebaseError ''Invalid auth blocking trigger type''), remote)"
  using assms
  by (simp add: registerAuthBlockingTriggerToIdentityPlatform_def
        unregisterAuthBlockingTriggerFromIdentityPlatform_def Let_def)

theorem unknown_event_type_fails_witness:
  "\<not> isBeforeCreate exEvents exX \<and> \<not> isBeforeSignIn exEvents exX
   \<and> registerAuthBlockingTriggerToIdentityPlatform exEvents exX False exRemote
       = (Inl (FirebaseError ''Invalid auth blocking trigger type.''), exRemote)
   \<and> unregisterAuthBlockingTriggerFromIdentityPlatform exEvents exX exRemote
       = (Inl (FirebaseError ''Invalid auth blocking trigger type''), exRemote)"
proof -
  have h1: "\<not> isBeforeCreate exEvents exX" and h2: "\<not> isBeforeSignIn exEvents exX"
    by (simp_all add: exX_def exEvents_family)
  from unknown_event_type_fails [OF h1 h2, of False exRemote] h1 h2 show ?thesis
    by simp
qed

end
